theory Spec2Isabelle
  imports Main "HOL-Library.Word"
begin

section \<open>Kernel interface seen by the guards\<close>

text \<open>
  The guards of \<^verbatim>\<open>SemaphoreGuard.cpp\<close> and \<^verbatim>\<open>RecursiveSemaphoreGuard.cpp\<close> sit on top of
  FreeRTOS. The kernel is an external collaborator: the model records every call a guard
  issues to it, in program order, and takes the kernel's answers as inputs.
\<close>

text \<open>A \<^verbatim>\<open>SemaphoreHandle_t\<close> is a pointer to a kernel object; it may be \<^verbatim>\<open>nullptr\<close>.\<close>

datatype SemaphoreHandle_t = nullptr | Handle nat

text \<open>
  Modelled from the spec: the types \<^verbatim>\<open>TickType_t\<close> and \<^verbatim>\<open>BaseType_t\<close> are declared by the
  FreeRTOS port, not by this repository; the spec only names a tick or timeout time unit and a
  success or failure result. On the ESP32 \<^verbatim>\<open>TickType_t\<close> is an unsigned 32-bit integer, so
  tick arithmetic wraps modulo \<open>2 ^ 32\<close>, and \<^verbatim>\<open>BaseType_t\<close> is the kernel's signed status
  type.
\<close>

type_synonym TickType_t = "32 word"
type_synonym BaseType_t = int

text \<open>
  Modelled from the spec: the FreeRTOS constants \<^verbatim>\<open>pdTRUE\<close>, \<^verbatim>\<open>pdFALSE\<close> and
  \<^verbatim>\<open>portMAX_DELAY\<close> come from the kernel headers, which are not part of the repository. The
  spec only says that the take operation reports success or failure and that the one-argument
  constructors wait without bound; the values below are the ones of the FreeRTOS headers
  (success is 1, failure is 0, the unbounded wait is the largest tick value).
\<close>

definition pdTRUE :: BaseType_t where
  "pdTRUE = 1"

definition pdFALSE :: BaseType_t where
  "pdFALSE = 0"

definition portMAX_DELAY :: TickType_t where
  "portMAX_DELAY = - 1"

text \<open>The four kernel operations that change a semaphore, with their arguments.\<close>

datatype kernel_call =
    xSemaphoreTake SemaphoreHandle_t TickType_t
  | xSemaphoreTakeRecursive SemaphoreHandle_t TickType_t
  | xSemaphoreGive SemaphoreHandle_t
  | xSemaphoreGiveRecursive SemaphoreHandle_t

text \<open>
  What the kernel answers while one constructor or one destructor runs: whether the caller is
  inside an interrupt handler, the status the take operation returns if it is called (each
  constructor calls it at most once), and the current tick count.
\<close>

record kernel =
  xPortInIsrContext :: bool
  take_status :: BaseType_t
  xTaskGetTickCount :: TickType_t

section \<open>Logging macros (SemaphoreGuardLogging.h)\<close>

datatype esp_log_level =
  ESP_LOG_NONE | ESP_LOG_ERROR | ESP_LOG_WARN | ESP_LOG_INFO | ESP_LOG_DEBUG | ESP_LOG_VERBOSE

text \<open>
  A \<^verbatim>\<open>printf\<close> argument. A data member that no constructor has written holds an indeterminate
  value; the model keeps it as \<open>None\<close>, so that a log line shows when it was built from one.
\<close>

datatype log_arg =
    ArgStr "string option"
  | ArgInt "int option"
  | ArgULong "32 word option"

text \<open>What a guard does to the outside world: a kernel call or a log line (level, tag, format, arguments).\<close>

datatype event =
    Call kernel_call
  | Log esp_log_level string string "log_arg list"

definition SEMG_LOG_TAG :: string where
  "SEMG_LOG_TAG = ''SemaphoreGuard''"

definition RSEMG_LOG_TAG :: string where
  "RSEMG_LOG_TAG = ''RecursiveSemaphoreGuard''"

text \<open>
  The error macros emit in every build variant. The debug and warning macros are used only in
  code compiled under \<^verbatim>\<open>SEMAPHORE_GUARD_DEBUG\<close> (the debug constructors and the
  \<^verbatim>\<open>#ifdef\<close> block of the destructors), where they expand to an emitting call.
\<close>

definition SEMG_LOG_E :: "string \<Rightarrow> log_arg list \<Rightarrow> event" where
  "SEMG_LOG_E fmt args = Log ESP_LOG_ERROR SEMG_LOG_TAG fmt args"

definition SEMG_LOG_W :: "string \<Rightarrow> log_arg list \<Rightarrow> event" where
  "SEMG_LOG_W fmt args = Log ESP_LOG_WARN SEMG_LOG_TAG fmt args"

definition SEMG_LOG_D :: "string \<Rightarrow> log_arg list \<Rightarrow> event" where
  "SEMG_LOG_D fmt args = Log ESP_LOG_DEBUG SEMG_LOG_TAG fmt args"

definition RSEMG_LOG_E :: "string \<Rightarrow> log_arg list \<Rightarrow> event" where
  "RSEMG_LOG_E fmt args = Log ESP_LOG_ERROR RSEMG_LOG_TAG fmt args"

definition RSEMG_LOG_W :: "string \<Rightarrow> log_arg list \<Rightarrow> event" where
  "RSEMG_LOG_W fmt args = Log ESP_LOG_WARN RSEMG_LOG_TAG fmt args"

definition RSEMG_LOG_D :: "string \<Rightarrow> log_arg list \<Rightarrow> event" where
  "RSEMG_LOG_D fmt args = Log ESP_LOG_DEBUG RSEMG_LOG_TAG fmt args"

section \<open>The guard object\<close>

text \<open>
  Both classes declare the same data members: \<^verbatim>\<open>m_handle\<close> and \<^verbatim>\<open>m_taken\<close>, and under
  \<^verbatim>\<open>SEMAPHORE_GUARD_DEBUG\<close> also \<^verbatim>\<open>m_file\<close>, \<^verbatim>\<open>m_line\<close> and \<^verbatim>\<open>m_acquireTime\<close>. The three
  debug members are \<open>None\<close> while nothing has been stored in them.
\<close>

record Guard =
  m_handle :: SemaphoreHandle_t
  m_taken :: bool
  m_file :: "string option"
  m_line :: "int option"
  m_acquireTime :: "TickType_t option"

text \<open>The member initialiser list \<^verbatim>\<open>m_handle(handle), m_taken(false)\<close> of the plain constructors.\<close>

definition init_plain :: "SemaphoreHandle_t \<Rightarrow> Guard" where
  "init_plain handle =
     \<lparr>m_handle = handle, m_taken = False, m_file = None, m_line = None, m_acquireTime = None\<rparr>"

text \<open>
  The member initialiser list \<^verbatim>\<open>m_handle(handle), m_taken(false), m_file(file), m_line(line)\<close>
  of the debug constructors.
\<close>

definition init_debug :: "SemaphoreHandle_t \<Rightarrow> string \<Rightarrow> int \<Rightarrow> Guard" where
  "init_debug handle file line =
     \<lparr>m_handle = handle, m_taken = False, m_file = Some file, m_line = Some line,
      m_acquireTime = None\<rparr>"

section \<open>SemaphoreGuard (SemaphoreGuard.cpp)\<close>

text \<open>Each constructor returns the constructed object and the events it produced.\<close>

definition SemaphoreGuard_ctor :: "kernel \<Rightarrow> SemaphoreHandle_t \<Rightarrow> Guard \<times> event list" where
  "SemaphoreGuard_ctor k handle =
     (let g = init_plain handle in
      if m_handle g = nullptr then
        (g, [SEMG_LOG_E ''Null semaphore handle provided'' []])
      else if xPortInIsrContext k then
        (g, [SEMG_LOG_E ''Cannot use SemaphoreGuard in ISR context'' []])
      else
        (g\<lparr>m_taken := (take_status k = pdTRUE)\<rparr>,
         [Call (xSemaphoreTake (m_handle g) portMAX_DELAY)]))"

definition SemaphoreGuard_ctor_timeout ::
  "kernel \<Rightarrow> SemaphoreHandle_t \<Rightarrow> TickType_t \<Rightarrow> Guard \<times> event list" where
  "SemaphoreGuard_ctor_timeout k handle timeout =
     (let g = init_plain handle in
      if m_handle g = nullptr then
        (g, [SEMG_LOG_E ''Null semaphore handle provided'' []])
      else if xPortInIsrContext k then
        (g, [SEMG_LOG_E ''Cannot use SemaphoreGuard in ISR context'' []])
      else
        (g\<lparr>m_taken := (take_status k = pdTRUE)\<rparr>,
         [Call (xSemaphoreTake (m_handle g) timeout)]))"

definition SemaphoreGuard_ctor_debug ::
  "kernel \<Rightarrow> SemaphoreHandle_t \<Rightarrow> string \<Rightarrow> int \<Rightarrow> Guard \<times> event list" where
  "SemaphoreGuard_ctor_debug k handle file line =
     (let g = init_debug handle file line in
      if m_handle g = nullptr then
        (g, [SEMG_LOG_E ''Null semaphore handle provided at %s:%d''
               [ArgStr (m_file g), ArgInt (m_line g)]])
      else if xPortInIsrContext k then
        (g, [SEMG_LOG_E ''Cannot use SemaphoreGuard in ISR context at %s:%d''
               [ArgStr (m_file g), ArgInt (m_line g)]])
      else
        (let g1 = g\<lparr>m_acquireTime := Some (xTaskGetTickCount k)\<rparr>;
             g2 = g1\<lparr>m_taken := (take_status k = pdTRUE)\<rparr>
         in (g2,
             [SEMG_LOG_D ''Attempting to acquire semaphore at %s:%d''
                [ArgStr (m_file g), ArgInt (m_line g)],
              Call (xSemaphoreTake (m_handle g) portMAX_DELAY)]
             @ (if m_taken g2 then
                  [SEMG_LOG_D ''Acquired semaphore at %s:%d''
                     [ArgStr (m_file g), ArgInt (m_line g)]]
                else []))))"

definition SemaphoreGuard_ctor_timeout_debug ::
  "kernel \<Rightarrow> SemaphoreHandle_t \<Rightarrow> TickType_t \<Rightarrow> string \<Rightarrow> int \<Rightarrow> Guard \<times> event list" where
  "SemaphoreGuard_ctor_timeout_debug k handle timeout file line =
     (let g = init_debug handle file line in
      if m_handle g = nullptr then
        (g, [SEMG_LOG_E ''Null semaphore handle provided at %s:%d''
               [ArgStr (m_file g), ArgInt (m_line g)]])
      else if xPortInIsrContext k then
        (g, [SEMG_LOG_E ''Cannot use SemaphoreGuard in ISR context at %s:%d''
               [ArgStr (m_file g), ArgInt (m_line g)]])
      else
        (let g1 = g\<lparr>m_acquireTime := Some (xTaskGetTickCount k)\<rparr>;
             g2 = g1\<lparr>m_taken := (take_status k = pdTRUE)\<rparr>
         in (g2,
             [SEMG_LOG_D ''Attempting to acquire semaphore with timeout %lu at %s:%d''
                [ArgULong (Some timeout), ArgStr (m_file g), ArgInt (m_line g)],
              Call (xSemaphoreTake (m_handle g) timeout),
              if m_taken g2 then
                SEMG_LOG_D ''Acquired semaphore at %s:%d''
                  [ArgStr (m_file g), ArgInt (m_line g)]
              else
                SEMG_LOG_W ''Failed to acquire semaphore within timeout at %s:%d''
                  [ArgStr (m_file g), ArgInt (m_line g)]])))"

text \<open>
  The destructor. Its first argument says whether the build defines
  \<^verbatim>\<open>SEMAPHORE_GUARD_DEBUG\<close>; the kernel answers are those at the time of destruction. The
  hold time is a \<^verbatim>\<open>TickType_t\<close> subtraction, written to the log as \<^verbatim>\<open>unsigned long\<close>. When
  \<^verbatim>\<open>m_acquireTime\<close> was never written the subtraction has no determined value: the log line
  then carries \<open>None\<close>, and the release that follows is still issued.
\<close>

definition SemaphoreGuard_dtor :: "bool \<Rightarrow> kernel \<Rightarrow> Guard \<Rightarrow> event list" where
  "SemaphoreGuard_dtor SEMAPHORE_GUARD_DEBUG k g =
     (if m_taken g \<and> m_handle g \<noteq> nullptr then
        (if SEMAPHORE_GUARD_DEBUG then
           (let holdTime = map_option (\<lambda>t. xTaskGetTickCount k - t) (m_acquireTime g) in
            [SEMG_LOG_D ''Releasing semaphore at %s:%d (held for %lu ticks)''
               [ArgStr (m_file g), ArgInt (m_line g), ArgULong holdTime]])
         else [])
        @ [Call (xSemaphoreGive (m_handle g))]
      else [])"

text \<open>The three accessors are \<^verbatim>\<open>const\<close> member functions.\<close>

definition hasLock :: "Guard \<Rightarrow> bool" where
  "hasLock g = m_taken g"

definition getHandle :: "Guard \<Rightarrow> SemaphoreHandle_t" where
  "getHandle g = m_handle g"

definition isValid :: "Guard \<Rightarrow> bool" where
  "isValid g = (m_handle g \<noteq> nullptr)"

section \<open>RecursiveSemaphoreGuard (RecursiveSemaphoreGuard.cpp)\<close>

definition RecursiveSemaphoreGuard_ctor ::
  "kernel \<Rightarrow> SemaphoreHandle_t \<Rightarrow> Guard \<times> event list" where
  "RecursiveSemaphoreGuard_ctor k handle =
     (let g = init_plain handle in
      if m_handle g = nullptr then
        (g, [RSEMG_LOG_E ''Null recursive mutex handle provided'' []])
      else if xPortInIsrContext k then
        (g, [RSEMG_LOG_E ''Cannot use RecursiveSemaphoreGuard in ISR context'' []])
      else
        (g\<lparr>m_taken := (take_status k = pdTRUE)\<rparr>,
         [Call (xSemaphoreTakeRecursive (m_handle g) portMAX_DELAY)]))"

definition RecursiveSemaphoreGuard_ctor_timeout ::
  "kernel \<Rightarrow> SemaphoreHandle_t \<Rightarrow> TickType_t \<Rightarrow> Guard \<times> event list" where
  "RecursiveSemaphoreGuard_ctor_timeout k handle timeout =
     (let g = init_plain handle in
      if m_handle g = nullptr then
        (g, [RSEMG_LOG_E ''Null recursive mutex handle provided'' []])
      else if xPortInIsrContext k then
        (g, [RSEMG_LOG_E ''Cannot use RecursiveSemaphoreGuard in ISR context'' []])
      else
        (g\<lparr>m_taken := (take_status k = pdTRUE)\<rparr>,
         [Call (xSemaphoreTakeRecursive (m_handle g) timeout)]))"

definition RecursiveSemaphoreGuard_ctor_debug ::
  "kernel \<Rightarrow> SemaphoreHandle_t \<Rightarrow> string \<Rightarrow> int \<Rightarrow> Guard \<times> event list" where
  "RecursiveSemaphoreGuard_ctor_debug k handle file line =
     (let g = init_debug handle file line in
      if m_handle g = nullptr then
        (g, [RSEMG_LOG_E ''Null recursive mutex handle provided at %s:%d''
               [ArgStr (m_file g), ArgInt (m_line g)]])
      else if xPortInIsrContext k then
        (g, [RSEMG_LOG_E ''Cannot use RecursiveSemaphoreGuard in ISR context at %s:%d''
               [ArgStr (m_file g), ArgInt (m_line g)]])
      else
        (let g1 = g\<lparr>m_acquireTime := Some (xTaskGetTickCount k)\<rparr>;
             g2 = g1\<lparr>m_taken := (take_status k = pdTRUE)\<rparr>
         in (g2,
             [RSEMG_LOG_D ''Attempting to acquire recursive mutex at %s:%d''
                [ArgStr (m_file g), ArgInt (m_line g)],
              Call (xSemaphoreTakeRecursive (m_handle g) portMAX_DELAY)]
             @ (if m_taken g2 then
                  [RSEMG_LOG_D ''Acquired recursive mutex at %s:%d''
                     [ArgStr (m_file g), ArgInt (m_line g)]]
                else []))))"

definition RecursiveSemaphoreGuard_ctor_timeout_debug ::
  "kernel \<Rightarrow> SemaphoreHandle_t \<Rightarrow> TickType_t \<Rightarrow> string \<Rightarrow> int \<Rightarrow> Guard \<times> event list" where
  "RecursiveSemaphoreGuard_ctor_timeout_debug k handle timeout file line =
     (let g = init_debug handle file line in
      if m_handle g = nullptr then
        (g, [RSEMG_LOG_E ''Null recursive mutex handle provided at %s:%d''
               [ArgStr (m_file g), ArgInt (m_line g)]])
      else if xPortInIsrContext k then
        (g, [RSEMG_LOG_E ''Cannot use RecursiveSemaphoreGuard in ISR context at %s:%d''
               [ArgStr (m_file g), ArgInt (m_line g)]])
      else
        (let g1 = g\<lparr>m_acquireTime := Some (xTaskGetTickCount k)\<rparr>;
             g2 = g1\<lparr>m_taken := (take_status k = pdTRUE)\<rparr>
         in (g2,
             [RSEMG_LOG_D ''Attempting to acquire recursive mutex with timeout %lu at %s:%d''
                [ArgULong (Some timeout), ArgStr (m_file g), ArgInt (m_line g)],
              Call (xSemaphoreTakeRecursive (m_handle g) timeout),
              if m_taken g2 then
                RSEMG_LOG_D ''Acquired recursive mutex at %s:%d''
                  [ArgStr (m_file g), ArgInt (m_line g)]
              else
                RSEMG_LOG_W ''Failed to acquire recursive mutex within timeout at %s:%d''
                  [ArgStr (m_file g), ArgInt (m_line g)]])))"

definition RecursiveSemaphoreGuard_dtor :: "bool \<Rightarrow> kernel \<Rightarrow> Guard \<Rightarrow> event list" where
  "RecursiveSemaphoreGuard_dtor SEMAPHORE_GUARD_DEBUG k g =
     (if m_taken g \<and> m_handle g \<noteq> nullptr then
        (if SEMAPHORE_GUARD_DEBUG then
           (let holdTime = map_option (\<lambda>t. xTaskGetTickCount k - t) (m_acquireTime g) in
            [RSEMG_LOG_D ''Releasing recursive mutex at %s:%d (held for %lu ticks)''
               [ArgStr (m_file g), ArgInt (m_line g), ArgULong holdTime]])
         else [])
        @ [Call (xSemaphoreGiveRecursive (m_handle g))]
      else [])"

section \<open>Every way of building and destroying a guard\<close>

text \<open>
  The two classes, and the four constructor signatures each of them declares (the last two only
  under \<^verbatim>\<open>SEMAPHORE_GUARD_DEBUG\<close>). \<open>construct\<close> and \<open>destruct\<close> select the member
  function of the class.
\<close>

datatype guard_class = SemaphoreGuard | RecursiveSemaphoreGuard

datatype ctor_args =
    Plain SemaphoreHandle_t
  | Timeout SemaphoreHandle_t TickType_t
  | Debug SemaphoreHandle_t string int
  | TimeoutDebug SemaphoreHandle_t TickType_t string int

fun construct :: "guard_class \<Rightarrow> kernel \<Rightarrow> ctor_args \<Rightarrow> Guard \<times> event list" where
  "construct SemaphoreGuard k (Plain h) = SemaphoreGuard_ctor k h"
| "construct SemaphoreGuard k (Timeout h t) = SemaphoreGuard_ctor_timeout k h t"
| "construct SemaphoreGuard k (Debug h f l) = SemaphoreGuard_ctor_debug k h f l"
| "construct SemaphoreGuard k (TimeoutDebug h t f l) = SemaphoreGuard_ctor_timeout_debug k h t f l"
| "construct RecursiveSemaphoreGuard k (Plain h) = RecursiveSemaphoreGuard_ctor k h"
| "construct RecursiveSemaphoreGuard k (Timeout h t) = RecursiveSemaphoreGuard_ctor_timeout k h t"
| "construct RecursiveSemaphoreGuard k (Debug h f l) = RecursiveSemaphoreGuard_ctor_debug k h f l"
| "construct RecursiveSemaphoreGuard k (TimeoutDebug h t f l) =
     RecursiveSemaphoreGuard_ctor_timeout_debug k h t f l"

fun destruct :: "guard_class \<Rightarrow> bool \<Rightarrow> kernel \<Rightarrow> Guard \<Rightarrow> event list" where
  "destruct SemaphoreGuard dbg k g = SemaphoreGuard_dtor dbg k g"
| "destruct RecursiveSemaphoreGuard dbg k g = RecursiveSemaphoreGuard_dtor dbg k g"

text \<open>The handle and the wait bound a constructor call was given.\<close>

fun handle_arg :: "ctor_args \<Rightarrow> SemaphoreHandle_t" where
  "handle_arg (Plain h) = h"
| "handle_arg (Timeout h t) = h"
| "handle_arg (Debug h f l) = h"
| "handle_arg (TimeoutDebug h t f l) = h"

fun wait_arg :: "ctor_args \<Rightarrow> TickType_t" where
  "wait_arg (Plain h) = portMAX_DELAY"
| "wait_arg (Timeout h t) = t"
| "wait_arg (Debug h f l) = portMAX_DELAY"
| "wait_arg (TimeoutDebug h t f l) = t"

text \<open>The kernel calls among a list of events, and the levels of its log lines, both in order.\<close>

fun kernel_calls :: "event list \<Rightarrow> kernel_call list" where
  "kernel_calls [] = []"
| "kernel_calls (Call c # es) = c # kernel_calls es"
| "kernel_calls (Log lv tag fmt args # es) = kernel_calls es"

fun log_levels :: "event list \<Rightarrow> esp_log_level list" where
  "log_levels [] = []"
| "log_levels (Call c # es) = log_levels es"
| "log_levels (Log lv tag fmt args # es) = lv # log_levels es"

text \<open>The acquire and release primitive of each class.\<close>

fun take_of :: "guard_class \<Rightarrow> SemaphoreHandle_t \<Rightarrow> TickType_t \<Rightarrow> kernel_call" where
  "take_of SemaphoreGuard h t = xSemaphoreTake h t"
| "take_of RecursiveSemaphoreGuard h t = xSemaphoreTakeRecursive h t"

fun give_of :: "guard_class \<Rightarrow> SemaphoreHandle_t \<Rightarrow> kernel_call" where
  "give_of SemaphoreGuard h = xSemaphoreGive h"
| "give_of RecursiveSemaphoreGuard h = xSemaphoreGiveRecursive h"

section \<open>Calling the accessors\<close>

text \<open>
  \<^verbatim>\<open>hasLock\<close>, \<^verbatim>\<open>isValid\<close> and \<^verbatim>\<open>getHandle\<close> are the only member functions besides the
  constructors and the destructor. A call returns the accessor's value together with the object
  as the call leaves it; a sequence of calls threads the object through.
\<close>

datatype accessor = HasLock | IsValid | GetHandle

datatype answer = Flag bool | Ref SemaphoreHandle_t

fun call_accessor :: "accessor \<Rightarrow> Guard \<Rightarrow> answer \<times> Guard" where
  "call_accessor HasLock g = (Flag (hasLock g), g)"
| "call_accessor IsValid g = (Flag (isValid g), g)"
| "call_accessor GetHandle g = (Ref (getHandle g), g)"

fun call_accessors :: "accessor list \<Rightarrow> Guard \<Rightarrow> answer list \<times> Guard" where
  "call_accessors [] g = ([], g)"
| "call_accessors (x # xs) g =
     (case call_accessor x g of (r, g1) \<Rightarrow>
        (case call_accessors xs g1 of (rs, g2) \<Rightarrow> (r # rs, g2)))"

section \<open>Comparing the two classes\<close>

text \<open>
  The recursive and the non-recursive form of each kernel primitive, and an event with the
  class-specific parts removed: the primitive is read as its recursive form, a log line keeps
  its level and arguments and drops its tag and wording.
\<close>

fun recursive_variant :: "kernel_call \<Rightarrow> kernel_call" where
  "recursive_variant (xSemaphoreTake h t) = xSemaphoreTakeRecursive h t"
| "recursive_variant (xSemaphoreTakeRecursive h t) = xSemaphoreTakeRecursive h t"
| "recursive_variant (xSemaphoreGive h) = xSemaphoreGiveRecursive h"
| "recursive_variant (xSemaphoreGiveRecursive h) = xSemaphoreGiveRecursive h"

fun plain_variant :: "kernel_call \<Rightarrow> kernel_call" where
  "plain_variant (xSemaphoreTake h t) = xSemaphoreTake h t"
| "plain_variant (xSemaphoreTakeRecursive h t) = xSemaphoreTake h t"
| "plain_variant (xSemaphoreGive h) = xSemaphoreGive h"
| "plain_variant (xSemaphoreGiveRecursive h) = xSemaphoreGive h"

fun class_neutral :: "event \<Rightarrow> event" where
  "class_neutral (Call c) = Call (recursive_variant c)"
| "class_neutral (Log lv tag fmt args) = Log lv [] [] args"

section \<open>Construction when the kernel may keep the caller\<close>

text \<open>
  The take operation is the one call of a constructor that can keep the caller: with
  \<^verbatim>\<open>portMAX_DELAY\<close> it waits for as long as the semaphore is held elsewhere. The kernel
  answers are extended by whether control comes back from the take call; \<open>take_status\<close> is the
  status returned when it does.
\<close>

record waiting_kernel = kernel +
  take_returns :: bool

text \<open>
  The constructors once more, statement by statement, with the result \<open>None\<close> when the
  constructor does not return. No constructor contains a \<^verbatim>\<open>throw\<close>, an assertion or a call
  that ends the program; the kernel call is the only statement control may not come back from.
\<close>

definition await_take ::
  "waiting_kernel \<Rightarrow> (BaseType_t \<Rightarrow> Guard \<times> event list) \<Rightarrow> (Guard \<times> event list) option" where
  "await_take k continue = (if take_returns k then Some (continue (take_status k)) else None)"

definition SemaphoreGuard_ctor_run ::
  "waiting_kernel \<Rightarrow> SemaphoreHandle_t \<Rightarrow> (Guard \<times> event list) option" where
  "SemaphoreGuard_ctor_run k handle =
     (let g = init_plain handle in
      if m_handle g = nullptr then
        Some (g, [SEMG_LOG_E ''Null semaphore handle provided'' []])
      else if xPortInIsrContext k then
        Some (g, [SEMG_LOG_E ''Cannot use SemaphoreGuard in ISR context'' []])
      else
        await_take k (\<lambda>status.
          (g\<lparr>m_taken := (status = pdTRUE)\<rparr>,
           [Call (xSemaphoreTake (m_handle g) portMAX_DELAY)])))"

definition SemaphoreGuard_ctor_timeout_run ::
  "waiting_kernel \<Rightarrow> SemaphoreHandle_t \<Rightarrow> TickType_t \<Rightarrow> (Guard \<times> event list) option" where
  "SemaphoreGuard_ctor_timeout_run k handle timeout =
     (let g = init_plain handle in
      if m_handle g = nullptr then
        Some (g, [SEMG_LOG_E ''Null semaphore handle provided'' []])
      else if xPortInIsrContext k then
        Some (g, [SEMG_LOG_E ''Cannot use SemaphoreGuard in ISR context'' []])
      else
        await_take k (\<lambda>status.
          (g\<lparr>m_taken := (status = pdTRUE)\<rparr>,
           [Call (xSemaphoreTake (m_handle g) timeout)])))"

definition SemaphoreGuard_ctor_debug_run ::
  "waiting_kernel \<Rightarrow> SemaphoreHandle_t \<Rightarrow> string \<Rightarrow> int \<Rightarrow> (Guard \<times> event list) option" where
  "SemaphoreGuard_ctor_debug_run k handle file line =
     (let g = init_debug handle file line in
      if m_handle g = nullptr then
        Some (g, [SEMG_LOG_E ''Null semaphore handle provided at %s:%d''
                    [ArgStr (m_file g), ArgInt (m_line g)]])
      else if xPortInIsrContext k then
        Some (g, [SEMG_LOG_E ''Cannot use SemaphoreGuard in ISR context at %s:%d''
                    [ArgStr (m_file g), ArgInt (m_line g)]])
      else
        (let g1 = g\<lparr>m_acquireTime := Some (xTaskGetTickCount k)\<rparr> in
         await_take k (\<lambda>status.
           (let g2 = g1\<lparr>m_taken := (status = pdTRUE)\<rparr> in
            (g2,
             [SEMG_LOG_D ''Attempting to acquire semaphore at %s:%d''
                [ArgStr (m_file g), ArgInt (m_line g)],
              Call (xSemaphoreTake (m_handle g) portMAX_DELAY)]
             @ (if m_taken g2 then
                  [SEMG_LOG_D ''Acquired semaphore at %s:%d''
                     [ArgStr (m_file g), ArgInt (m_line g)]]
                else []))))))"

definition SemaphoreGuard_ctor_timeout_debug_run ::
  "waiting_kernel \<Rightarrow> SemaphoreHandle_t \<Rightarrow> TickType_t \<Rightarrow> string \<Rightarrow> int \<Rightarrow>
     (Guard \<times> event list) option" where
  "SemaphoreGuard_ctor_timeout_debug_run k handle timeout file line =
     (let g = init_debug handle file line in
      if m_handle g = nullptr then
        Some (g, [SEMG_LOG_E ''Null semaphore handle provided at %s:%d''
                    [ArgStr (m_file g), ArgInt (m_line g)]])
      else if xPortInIsrContext k then
        Some (g, [SEMG_LOG_E ''Cannot use SemaphoreGuard in ISR context at %s:%d''
                    [ArgStr (m_file g), ArgInt (m_line g)]])
      else
        (let g1 = g\<lparr>m_acquireTime := Some (xTaskGetTickCount k)\<rparr> in
         await_take k (\<lambda>status.
           (let g2 = g1\<lparr>m_taken := (status = pdTRUE)\<rparr> in
            (g2,
             [SEMG_LOG_D ''Attempting to acquire semaphore with timeout %lu at %s:%d''
                [ArgULong (Some timeout), ArgStr (m_file g), ArgInt (m_line g)],
              Call (xSemaphoreTake (m_handle g) timeout),
              if m_taken g2 then
                SEMG_LOG_D ''Acquired semaphore at %s:%d''
                  [ArgStr (m_file g), ArgInt (m_line g)]
              else
                SEMG_LOG_W ''Failed to acquire semaphore within timeout at %s:%d''
                  [ArgStr (m_file g), ArgInt (m_line g)]])))))"

definition RecursiveSemaphoreGuard_ctor_run ::
  "waiting_kernel \<Rightarrow> SemaphoreHandle_t \<Rightarrow> (Guard \<times> event list) option" where
  "RecursiveSemaphoreGuard_ctor_run k handle =
     (let g = init_plain handle in
      if m_handle g = nullptr then
        Some (g, [RSEMG_LOG_E ''Null recursive mutex handle provided'' []])
      else if xPortInIsrContext k then
        Some (g, [RSEMG_LOG_E ''Cannot use RecursiveSemaphoreGuard in ISR context'' []])
      else
        await_take k (\<lambda>status.
          (g\<lparr>m_taken := (status = pdTRUE)\<rparr>,
           [Call (xSemaphoreTakeRecursive (m_handle g) portMAX_DELAY)])))"

definition RecursiveSemaphoreGuard_ctor_timeout_run ::
  "waiting_kernel \<Rightarrow> SemaphoreHandle_t \<Rightarrow> TickType_t \<Rightarrow> (Guard \<times> event list) option" where
  "RecursiveSemaphoreGuard_ctor_timeout_run k handle timeout =
     (let g = init_plain handle in
      if m_handle g = nullptr then
        Some (g, [RSEMG_LOG_E ''Null recursive mutex handle provided'' []])
      else if xPortInIsrContext k then
        Some (g, [RSEMG_LOG_E ''Cannot use RecursiveSemaphoreGuard in ISR context'' []])
      else
        await_take k (\<lambda>status.
          (g\<lparr>m_taken := (status = pdTRUE)\<rparr>,
           [Call (xSemaphoreTakeRecursive (m_handle g) timeout)])))"

definition RecursiveSemaphoreGuard_ctor_debug_run ::
  "waiting_kernel \<Rightarrow> SemaphoreHandle_t \<Rightarrow> string \<Rightarrow> int \<Rightarrow> (Guard \<times> event list) option" where
  "RecursiveSemaphoreGuard_ctor_debug_run k handle file line =
     (let g = init_debug handle file line in
      if m_handle g = nullptr then
        Some (g, [RSEMG_LOG_E ''Null recursive mutex handle provided at %s:%d''
                    [ArgStr (m_file g), ArgInt (m_line g)]])
      else if xPortInIsrContext k then
        Some (g, [RSEMG_LOG_E ''Cannot use RecursiveSemaphoreGuard in ISR context at %s:%d''
                    [ArgStr (m_file g), ArgInt (m_line g)]])
      else
        (let g1 = g\<lparr>m_acquireTime := Some (xTaskGetTickCount k)\<rparr> in
         await_take k (\<lambda>status.
           (let g2 = g1\<lparr>m_taken := (status = pdTRUE)\<rparr> in
            (g2,
             [RSEMG_LOG_D ''Attempting to acquire recursive mutex at %s:%d''
                [ArgStr (m_file g), ArgInt (m_line g)],
              Call (xSemaphoreTakeRecursive (m_handle g) portMAX_DELAY)]
             @ (if m_taken g2 then
                  [RSEMG_LOG_D ''Acquired recursive mutex at %s:%d''
                     [ArgStr (m_file g), ArgInt (m_line g)]]
                else []))))))"

definition RecursiveSemaphoreGuard_ctor_timeout_debug_run ::
  "waiting_kernel \<Rightarrow> SemaphoreHandle_t \<Rightarrow> TickType_t \<Rightarrow> string \<Rightarrow> int \<Rightarrow>
     (Guard \<times> event list) option" where
  "RecursiveSemaphoreGuard_ctor_timeout_debug_run k handle timeout file line =
     (let g = init_debug handle file line in
      if m_handle g = nullptr then
        Some (g, [RSEMG_LOG_E ''Null recursive mutex handle provided at %s:%d''
                    [ArgStr (m_file g), ArgInt (m_line g)]])
      else if xPortInIsrContext k then
        Some (g, [RSEMG_LOG_E ''Cannot use RecursiveSemaphoreGuard in ISR context at %s:%d''
                    [ArgStr (m_file g), ArgInt (m_line g)]])
      else
        (let g1 = g\<lparr>m_acquireTime := Some (xTaskGetTickCount k)\<rparr> in
         await_take k (\<lambda>status.
           (let g2 = g1\<lparr>m_taken := (status = pdTRUE)\<rparr> in
            (g2,
             [RSEMG_LOG_D ''Attempting to acquire recursive mutex with timeout %lu at %s:%d''
                [ArgULong (Some timeout), ArgStr (m_file g), ArgInt (m_line g)],
              Call (xSemaphoreTakeRecursive (m_handle g) timeout),
              if m_taken g2 then
                RSEMG_LOG_D ''Acquired recursive mutex at %s:%d''
                  [ArgStr (m_file g), ArgInt (m_line g)]
              else
                RSEMG_LOG_W ''Failed to acquire recursive mutex within timeout at %s:%d''
                  [ArgStr (m_file g), ArgInt (m_line g)]])))))"

fun construct_run ::
  "guard_class \<Rightarrow> waiting_kernel \<Rightarrow> ctor_args \<Rightarrow> (Guard \<times> event list) option" where
  "construct_run SemaphoreGuard k (Plain h) = SemaphoreGuard_ctor_run k h"
| "construct_run SemaphoreGuard k (Timeout h t) = SemaphoreGuard_ctor_timeout_run k h t"
| "construct_run SemaphoreGuard k (Debug h f l) = SemaphoreGuard_ctor_debug_run k h f l"
| "construct_run SemaphoreGuard k (TimeoutDebug h t f l) =
     SemaphoreGuard_ctor_timeout_debug_run k h t f l"
| "construct_run RecursiveSemaphoreGuard k (Plain h) = RecursiveSemaphoreGuard_ctor_run k h"
| "construct_run RecursiveSemaphoreGuard k (Timeout h t) =
     RecursiveSemaphoreGuard_ctor_timeout_run k h t"
| "construct_run RecursiveSemaphoreGuard k (Debug h f l) =
     RecursiveSemaphoreGuard_ctor_debug_run k h f l"
| "construct_run RecursiveSemaphoreGuard k (TimeoutDebug h t f l) =
     RecursiveSemaphoreGuard_ctor_timeout_debug_run k h t f l"

section \<open>Shape of a constructed guard\<close>

lemmas ctor_defs =
  SemaphoreGuard_ctor_def SemaphoreGuard_ctor_timeout_def
  SemaphoreGuard_ctor_debug_def SemaphoreGuard_ctor_timeout_debug_def
  RecursiveSemaphoreGuard_ctor_def RecursiveSemaphoreGuard_ctor_timeout_def
  RecursiveSemaphoreGuard_ctor_debug_def RecursiveSemaphoreGuard_ctor_timeout_debug_def
  init_plain_def init_debug_def

lemmas log_defs =
  SEMG_LOG_E_def SEMG_LOG_W_def SEMG_LOG_D_def RSEMG_LOG_E_def RSEMG_LOG_W_def RSEMG_LOG_D_def

lemma construct_m_handle: "m_handle (fst (construct c k a)) = handle_arg a"
  by (cases c; cases a) (simp_all add: ctor_defs Let_def)

lemma construct_m_taken:
  "m_taken (fst (construct c k a)) =
     (handle_arg a \<noteq> nullptr \<and> \<not> xPortInIsrContext k \<and> take_status k = pdTRUE)"
  by (cases c; cases a) (simp_all add: ctor_defs Let_def)

lemma construct_kernel_calls:
  "kernel_calls (snd (construct c k a)) =
     (if handle_arg a = nullptr \<or> xPortInIsrContext k then []
      else [take_of c (handle_arg a) (wait_arg a)])"
  by (cases c; cases a) (simp_all add: ctor_defs log_defs Let_def)

lemma destruct_kernel_calls:
  "kernel_calls (destruct c dbg k g) =
     (if m_taken g \<and> m_handle g \<noteq> nullptr then [give_of c (m_handle g)] else [])"
  by (cases c)
     (simp_all add: SemaphoreGuard_dtor_def RecursiveSemaphoreGuard_dtor_def log_defs Let_def)

lemma destruct_not_taken: "\<not> m_taken g \<Longrightarrow> destruct c dbg k g = []"
  by (cases c) (simp_all add: SemaphoreGuard_dtor_def RecursiveSemaphoreGuard_dtor_def)

section \<open>Release at destruction\<close>

text \<open>
  Claim C1. For a guard of either class built by any of its constructors, the destructor issues
  exactly one kernel call, the release primitive of the class on the guard's handle, when
  \<open>hasLock\<close> is true, and none when it is false. A guard that did not acquire (null handle,
  interrupt context, or a take that did not succeed) produces no event at all when destroyed,
  in either build variant, so nothing reaches the kernel.
\<close>

theorem destructor_releases_iff_acquired:
  "kernel_calls (destruct c dbg k' (fst (construct c k a))) =
     (if hasLock (fst (construct c k a)) then [give_of c (handle_arg a)] else [])
   \<and> (\<not> hasLock (fst (construct c k a)) \<longrightarrow> destruct c dbg k' (fst (construct c k a)) = [])"
  by (simp add: destruct_kernel_calls destruct_not_taken construct_m_taken construct_m_handle
        hasLock_def)

theorem destructor_releases_iff_acquired_witness:
  "hasLock (fst (construct SemaphoreGuard
       \<lparr>xPortInIsrContext = False, take_status = 1, xTaskGetTickCount = 100\<rparr> (Plain (Handle 7))))
   \<and> kernel_calls (destruct SemaphoreGuard False
       \<lparr>xPortInIsrContext = False, take_status = 1, xTaskGetTickCount = 250\<rparr>
       (fst (construct SemaphoreGuard
          \<lparr>xPortInIsrContext = False, take_status = 1, xTaskGetTickCount = 100\<rparr>
          (Plain (Handle 7))))) = [xSemaphoreGive (Handle 7)]
   \<and> \<not> hasLock (fst (construct RecursiveSemaphoreGuard
       \<lparr>xPortInIsrContext = False, take_status = 0, xTaskGetTickCount = 100\<rparr>
       (Timeout (Handle 7) 10)))
   \<and> destruct RecursiveSemaphoreGuard True
       \<lparr>xPortInIsrContext = False, take_status = 1, xTaskGetTickCount = 250\<rparr>
       (fst (construct RecursiveSemaphoreGuard
          \<lparr>xPortInIsrContext = False, take_status = 0, xTaskGetTickCount = 100\<rparr>
          (Timeout (Handle 7) 10))) = []"
  using destructor_releases_iff_acquired
          [of SemaphoreGuard False
              "\<lparr>xPortInIsrContext = False, take_status = 1, xTaskGetTickCount = 250\<rparr>"
              "\<lparr>xPortInIsrContext = False, take_status = 1, xTaskGetTickCount = 100\<rparr>"
              "Plain (Handle 7)"]
        destructor_releases_iff_acquired
          [of RecursiveSemaphoreGuard True
              "\<lparr>xPortInIsrContext = False, take_status = 1, xTaskGetTickCount = 250\<rparr>"
              "\<lparr>xPortInIsrContext = False, take_status = 0, xTaskGetTickCount = 100\<rparr>"
              "Timeout (Handle 7) 10"]
  by (simp add: ctor_defs hasLock_def pdTRUE_def)

section \<open>The acquired flag\<close>

text \<open>
  Claim C2. After any constructor of either class, \<open>hasLock\<close> is true exactly when the
  constructor issued its take call and the kernel answered \<^verbatim>\<open>pdTRUE\<close>. The take call is
  issued exactly when the handle is not null and the caller is not in interrupt context, so
  \<open>hasLock\<close> is false when the take is not reached or does not succeed. The constructor issues
  no other kernel call, in particular no release.
\<close>

theorem hasLock_iff_take_succeeded:
  "hasLock (fst (construct c k a)) =
     (kernel_calls (snd (construct c k a)) = [take_of c (handle_arg a) (wait_arg a)]
      \<and> take_status k = pdTRUE)
   \<and> kernel_calls (snd (construct c k a)) =
       (if handle_arg a = nullptr \<or> xPortInIsrContext k then []
        else [take_of c (handle_arg a) (wait_arg a)])
   \<and> hasLock (fst (construct c k a)) =
       (handle_arg a \<noteq> nullptr \<and> \<not> xPortInIsrContext k \<and> take_status k = pdTRUE)"
  by (auto simp add: construct_kernel_calls construct_m_taken hasLock_def)

theorem hasLock_iff_take_succeeded_witness:
  "hasLock (fst (construct RecursiveSemaphoreGuard
       \<lparr>xPortInIsrContext = False, take_status = 1, xTaskGetTickCount = 5\<rparr>
       (Timeout (Handle 3) 20)))
   \<and> kernel_calls (snd (construct RecursiveSemaphoreGuard
       \<lparr>xPortInIsrContext = False, take_status = 1, xTaskGetTickCount = 5\<rparr>
       (Timeout (Handle 3) 20))) = [xSemaphoreTakeRecursive (Handle 3) 20]
   \<and> \<not> hasLock (fst (construct RecursiveSemaphoreGuard
       \<lparr>xPortInIsrContext = True, take_status = 1, xTaskGetTickCount = 5\<rparr>
       (Timeout (Handle 3) 20)))"
  using hasLock_iff_take_succeeded
          [of RecursiveSemaphoreGuard
              "\<lparr>xPortInIsrContext = False, take_status = 1, xTaskGetTickCount = 5\<rparr>"
              "Timeout (Handle 3) 20"]
        hasLock_iff_take_succeeded
          [of RecursiveSemaphoreGuard
              "\<lparr>xPortInIsrContext = True, take_status = 1, xTaskGetTickCount = 5\<rparr>"
              "Timeout (Handle 3) 20"]
  by (simp add: pdTRUE_def)

section \<open>Refused constructions\<close>

text \<open>
  Claim C3. A constructor of either class called with a null handle, whatever its other
  arguments and whatever the kernel would answer, returns a guard with \<open>hasLock\<close> false and
  \<open>isValid\<close> false, issues no kernel call, and writes exactly one log line, at error level.
\<close>

theorem null_handle_construction:
  assumes "handle_arg a = nullptr"
  shows "\<not> hasLock (fst (construct c k a))
         \<and> \<not> isValid (fst (construct c k a))
         \<and> kernel_calls (snd (construct c k a)) = []
         \<and> log_levels (snd (construct c k a)) = [ESP_LOG_ERROR]"
  using assms
  by (cases c; cases a) (simp_all add: ctor_defs log_defs hasLock_def isValid_def Let_def)

theorem null_handle_construction_witness:
  "handle_arg (Timeout nullptr 50) = nullptr
   \<and> \<not> hasLock (fst (construct SemaphoreGuard
          \<lparr>xPortInIsrContext = False, take_status = 1, xTaskGetTickCount = 0\<rparr>
          (Timeout nullptr 50)))
   \<and> \<not> isValid (fst (construct SemaphoreGuard
          \<lparr>xPortInIsrContext = False, take_status = 1, xTaskGetTickCount = 0\<rparr>
          (Timeout nullptr 50)))
   \<and> snd (construct SemaphoreGuard
          \<lparr>xPortInIsrContext = False, take_status = 1, xTaskGetTickCount = 0\<rparr>
          (Timeout nullptr 50))
       = [Log ESP_LOG_ERROR ''SemaphoreGuard'' ''Null semaphore handle provided'' []]"
  using null_handle_construction
          [of "Timeout nullptr 50" SemaphoreGuard
              "\<lparr>xPortInIsrContext = False, take_status = 1, xTaskGetTickCount = 0\<rparr>"]
  by (simp add: ctor_defs log_defs SEMG_LOG_TAG_def)

text \<open>
  Claim C4. A constructor of either class called in interrupt context with a handle that is not
  null returns normally with a guard that keeps the handle, has \<open>hasLock\<close> false, has issued
  no kernel call (so it cannot have blocked), and has written exactly one log line, at error
  level. This holds for the constructors with and without a timeout.
\<close>

theorem isr_context_construction:
  assumes "handle_arg a \<noteq> nullptr" and "xPortInIsrContext k"
  shows "\<not> hasLock (fst (construct c k a))
         \<and> getHandle (fst (construct c k a)) = handle_arg a
         \<and> kernel_calls (snd (construct c k a)) = []
         \<and> log_levels (snd (construct c k a)) = [ESP_LOG_ERROR]"
  using assms
  by (cases c; cases a) (simp_all add: ctor_defs log_defs hasLock_def getHandle_def Let_def)

theorem isr_context_construction_witness:
  "handle_arg (Plain (Handle 2)) \<noteq> nullptr
   \<and> xPortInIsrContext \<lparr>xPortInIsrContext = True, take_status = 1, xTaskGetTickCount = 0\<rparr>
   \<and> \<not> hasLock (fst (construct RecursiveSemaphoreGuard
          \<lparr>xPortInIsrContext = True, take_status = 1, xTaskGetTickCount = 0\<rparr>
          (Plain (Handle 2))))
   \<and> snd (construct RecursiveSemaphoreGuard
          \<lparr>xPortInIsrContext = True, take_status = 1, xTaskGetTickCount = 0\<rparr>
          (Plain (Handle 2)))
       = [Log ESP_LOG_ERROR ''RecursiveSemaphoreGuard''
            ''Cannot use RecursiveSemaphoreGuard in ISR context'' []]"
  using isr_context_construction
          [of "Plain (Handle 2)"
              "\<lparr>xPortInIsrContext = True, take_status = 1, xTaskGetTickCount = 0\<rparr>"
              RecursiveSemaphoreGuard]
  by (simp add: ctor_defs log_defs RSEMG_LOG_TAG_def)

section \<open>Construction always yields a guard\<close>

lemmas ctor_run_defs =
  SemaphoreGuard_ctor_run_def SemaphoreGuard_ctor_timeout_run_def
  SemaphoreGuard_ctor_debug_run_def SemaphoreGuard_ctor_timeout_debug_run_def
  RecursiveSemaphoreGuard_ctor_run_def RecursiveSemaphoreGuard_ctor_timeout_run_def
  RecursiveSemaphoreGuard_ctor_debug_run_def RecursiveSemaphoreGuard_ctor_timeout_debug_run_def
  await_take_def

text \<open>
  When control comes back from the take call, a constructor returns what the constructor of
  the earlier sections returns on the same kernel answers.
\<close>

lemma construct_run_returns:
  "take_returns k \<Longrightarrow> construct_run c k a = Some (construct c (kernel.truncate k) a)"
  by (cases c; cases a) (simp_all add: ctor_run_defs ctor_defs kernel.truncate_def Let_def)

text \<open>A constructor that does not reach the take call returns whatever the take would do.\<close>

lemma construct_run_refused:
  "handle_arg a = nullptr \<or> xPortInIsrContext k \<Longrightarrow>
     construct_run c k a = Some (construct c (kernel.truncate k) a)"
  by (cases c; cases a) (auto simp add: ctor_run_defs ctor_defs kernel.truncate_def Let_def)

text \<open>The only way not to return: the take call is reached and control stays in the kernel.\<close>

lemma construct_run_None:
  "(construct_run c k a = None) =
     (handle_arg a \<noteq> nullptr \<and> \<not> xPortInIsrContext k \<and> \<not> take_returns k)"
  by (cases c; cases a) (simp_all add: ctor_run_defs init_plain_def init_debug_def Let_def)

text \<open>
  Claim C5. For every class, constructor, handle, execution context, timeout and status the
  take call returns, the constructor returns a constructed guard; there is no other outcome
  than a guard, since the result \<open>None\<close> arises only when the take call is reached and control
  never comes back from the kernel. The guard keeps the handle it was given, and each of the
  three ways to fail (null handle, interrupt context, a take that returns another status than
  \<^verbatim>\<open>pdTRUE\<close>) yields a guard whose \<open>hasLock\<close> is false. With a null handle or in interrupt
  context the constructor returns even if a take call would never come back.
\<close>

theorem construction_total:
  "(take_returns k \<longrightarrow>
      (\<exists>g evs. construct_run c k a = Some (g, evs)
         \<and> getHandle g = handle_arg a
         \<and> hasLock g =
             (handle_arg a \<noteq> nullptr \<and> \<not> xPortInIsrContext k \<and> take_status k = pdTRUE)))
   \<and> (handle_arg a = nullptr \<or> xPortInIsrContext k \<longrightarrow>
        (\<exists>g evs. construct_run c k a = Some (g, evs)
           \<and> getHandle g = handle_arg a \<and> \<not> hasLock g \<and> kernel_calls evs = []))
   \<and> (construct_run c k a = None) =
       (handle_arg a \<noteq> nullptr \<and> \<not> xPortInIsrContext k \<and> \<not> take_returns k)"
proof (intro conjI impI)
  assume ret: "take_returns k"
  obtain g evs where ge: "construct c (kernel.truncate k) a = (g, evs)"
    by (cases "construct c (kernel.truncate k) a")
  have run: "construct_run c k a = Some (g, evs)"
    using construct_run_returns [OF ret, of c a] ge by simp
  have "getHandle g = handle_arg a"
    using construct_m_handle [of c "kernel.truncate k" a] ge by (simp add: getHandle_def)
  moreover have "hasLock g =
      (handle_arg a \<noteq> nullptr \<and> \<not> xPortInIsrContext k \<and> take_status k = pdTRUE)"
    using construct_m_taken [of c "kernel.truncate k" a] ge
    by (simp add: hasLock_def kernel.truncate_def)
  ultimately show "\<exists>g evs. construct_run c k a = Some (g, evs)
         \<and> getHandle g = handle_arg a
         \<and> hasLock g =
             (handle_arg a \<noteq> nullptr \<and> \<not> xPortInIsrContext k \<and> take_status k = pdTRUE)"
    using run by blast
next
  assume refused: "handle_arg a = nullptr \<or> xPortInIsrContext k"
  obtain g evs where ge: "construct c (kernel.truncate k) a = (g, evs)"
    by (cases "construct c (kernel.truncate k) a")
  have run: "construct_run c k a = Some (g, evs)"
    using construct_run_refused [OF refused, of c] ge by simp
  have "getHandle g = handle_arg a"
    using construct_m_handle [of c "kernel.truncate k" a] ge by (simp add: getHandle_def)
  moreover have "\<not> hasLock g"
    using construct_m_taken [of c "kernel.truncate k" a] ge refused
    by (auto simp add: hasLock_def kernel.truncate_def)
  moreover have "kernel_calls evs = []"
    using construct_kernel_calls [of c "kernel.truncate k" a] ge refused
    by (auto simp add: kernel.truncate_def)
  ultimately show "\<exists>g evs. construct_run c k a = Some (g, evs)
           \<and> getHandle g = handle_arg a \<and> \<not> hasLock g \<and> kernel_calls evs = []"
    using run by blast
next
  show "(construct_run c k a = None) =
       (handle_arg a \<noteq> nullptr \<and> \<not> xPortInIsrContext k \<and> \<not> take_returns k)"
    by (rule construct_run_None)
qed

theorem construction_total_witness:
  "(\<exists>g evs. construct_run SemaphoreGuard
        \<lparr>xPortInIsrContext = False, take_status = 0, xTaskGetTickCount = 9, take_returns = True\<rparr>
        (Timeout (Handle 4) 10) = Some (g, evs) \<and> getHandle g = Handle 4 \<and> \<not> hasLock g)
   \<and> (\<exists>g evs. construct_run SemaphoreGuard
        \<lparr>xPortInIsrContext = False, take_status = 1, xTaskGetTickCount = 9, take_returns = True\<rparr>
        (Timeout (Handle 4) 10) = Some (g, evs) \<and> getHandle g = Handle 4 \<and> hasLock g)
   \<and> (\<exists>g evs. construct_run RecursiveSemaphoreGuard
        \<lparr>xPortInIsrContext = False, take_status = 1, xTaskGetTickCount = 9, take_returns = False\<rparr>
        (Debug nullptr ''main.cpp'' 18) = Some (g, evs)
          \<and> getHandle g = nullptr \<and> \<not> hasLock g \<and> kernel_calls evs = [])
   \<and> (\<exists>g evs. construct_run RecursiveSemaphoreGuard
        \<lparr>xPortInIsrContext = True, take_status = 1, xTaskGetTickCount = 9, take_returns = False\<rparr>
        (Plain (Handle 4)) = Some (g, evs)
          \<and> getHandle g = Handle 4 \<and> \<not> hasLock g \<and> kernel_calls evs = [])
   \<and> construct_run SemaphoreGuard
        \<lparr>xPortInIsrContext = False, take_status = 1, xTaskGetTickCount = 9, take_returns = False\<rparr>
        (Plain (Handle 4)) = None"
  using construction_total
          [of "\<lparr>xPortInIsrContext = False, take_status = 0, xTaskGetTickCount = 9,
                take_returns = True\<rparr>" SemaphoreGuard "Timeout (Handle 4) 10"]
        construction_total
          [of "\<lparr>xPortInIsrContext = False, take_status = 1, xTaskGetTickCount = 9,
                take_returns = True\<rparr>" SemaphoreGuard "Timeout (Handle 4) 10"]
        construction_total
          [of "\<lparr>xPortInIsrContext = False, take_status = 1, xTaskGetTickCount = 9,
                take_returns = False\<rparr>" RecursiveSemaphoreGuard "Debug nullptr ''main.cpp'' 18"]
        construction_total
          [of "\<lparr>xPortInIsrContext = True, take_status = 1, xTaskGetTickCount = 9,
                take_returns = False\<rparr>" RecursiveSemaphoreGuard "Plain (Handle 4)"]
        construction_total
          [of "\<lparr>xPortInIsrContext = False, take_status = 1, xTaskGetTickCount = 9,
                take_returns = False\<rparr>" SemaphoreGuard "Plain (Handle 4)"]
  by (simp add: pdTRUE_def del: construct_run.simps)

section \<open>The accessors observe and do not change\<close>

lemma call_accessor_unchanged: "snd (call_accessor x g) = g"
  by (cases x) simp_all

lemma call_accessors_unchanged: "snd (call_accessors xs g) = g"
proof (induction xs arbitrary: g)
  case Nil
  show ?case by simp
next
  case (Cons x xs)
  have "snd (call_accessor x g) = g"
    by (rule call_accessor_unchanged)
  with Cons.IH show ?case
    by (simp split: prod.splits) (metis snd_conv)
qed

lemma call_accessors_answers:
  "fst (call_accessors xs g) = map (\<lambda>x. fst (call_accessor x g)) xs"
proof (induction xs)
  case Nil
  show ?case by simp
next
  case (Cons x xs)
  obtain r g1 where x: "call_accessor x g = (r, g1)"
    by (cases "call_accessor x g")
  with call_accessor_unchanged [of x g] have g1: "g1 = g"
    by simp
  obtain rs g2 where xs: "call_accessors xs g = (rs, g2)"
    by (cases "call_accessors xs g")
  from Cons.IH x xs g1 show ?case
    by simp
qed

text \<open>
  Claim C6. Once a guard is constructed, any sequence of accessor calls leaves the object as it
  was, and every call in the sequence answers what it would answer on the freshly constructed
  object; so a guard that did not acquire never reports \<open>hasLock\<close> later. \<open>hasLock\<close> returns
  the acquired flag, \<open>isValid\<close> returns whether the stored handle is not null (for a constructed
  guard: whether the handle given to the constructor is not null, whatever the kernel
  answered), and \<open>getHandle\<close> returns the handle given to the constructor.
\<close>

theorem accessors_are_observers:
  "snd (call_accessors xs g) = g
   \<and> fst (call_accessors xs g) = map (\<lambda>x. fst (call_accessor x g)) xs
   \<and> hasLock g = m_taken g
   \<and> isValid g = (m_handle g \<noteq> nullptr)
   \<and> getHandle (fst (construct c k a)) = handle_arg a
   \<and> isValid (fst (construct c k a)) = (handle_arg a \<noteq> nullptr)
   \<and> hasLock (snd (call_accessors xs (fst (construct c k a)))) = hasLock (fst (construct c k a))"
  by (simp add: call_accessors_unchanged call_accessors_answers construct_m_handle
        hasLock_def isValid_def getHandle_def)

theorem accessors_are_observers_witness:
  "call_accessors [HasLock, IsValid, GetHandle, HasLock]
      (fst (construct SemaphoreGuard
         \<lparr>xPortInIsrContext = False, take_status = 0, xTaskGetTickCount = 1\<rparr>
         (Timeout (Handle 5) 10)))
   = ([Flag False, Flag True, Ref (Handle 5), Flag False],
      fst (construct SemaphoreGuard
         \<lparr>xPortInIsrContext = False, take_status = 0, xTaskGetTickCount = 1\<rparr>
         (Timeout (Handle 5) 10)))"
  using accessors_are_observers
          [of "[HasLock, IsValid, GetHandle, HasLock]"
              "fst (construct SemaphoreGuard
                 \<lparr>xPortInIsrContext = False, take_status = 0, xTaskGetTickCount = 1\<rparr>
                 (Timeout (Handle 5) 10))"
              SemaphoreGuard
              "\<lparr>xPortInIsrContext = False, take_status = 0, xTaskGetTickCount = 1\<rparr>"
              "Timeout (Handle 5) 10"]
  by (simp add: ctor_defs hasLock_def isValid_def getHandle_def pdTRUE_def)

section \<open>The two classes differ only in the kernel primitive\<close>

lemmas dtor_defs = SemaphoreGuard_dtor_def RecursiveSemaphoreGuard_dtor_def

lemma construct_class_neutral:
  "map class_neutral (snd (construct RecursiveSemaphoreGuard k a)) =
   map class_neutral (snd (construct SemaphoreGuard k a))"
  by (cases a) (simp_all add: ctor_defs log_defs Let_def)

lemma destruct_class_neutral:
  "map class_neutral (destruct RecursiveSemaphoreGuard dbg kd g) =
   map class_neutral (destruct SemaphoreGuard dbg kd g)"
  by (simp add: dtor_defs log_defs Let_def)

lemma construct_same_object:
  "fst (construct RecursiveSemaphoreGuard k a) = fst (construct SemaphoreGuard k a)"
  by (cases a) (simp_all add: ctor_defs Let_def)

text \<open>
  Claim C7. For every handle, timeout, execution context and kernel answer, a constructor of
  \<open>RecursiveSemaphoreGuard\<close> and the constructor of \<open>SemaphoreGuard\<close> with the same
  signature build the same object (same handle, same acquired flag, same debug members) and
  produce the same events up to the class-specific parts: the kernel calls of the recursive
  guard are the recursive forms of those of the binary guard, at the same positions, and the
  kernel calls of the binary guard are the non-recursive forms of those of the recursive guard.
  The same holds for the two destructors on any object.
\<close>

theorem recursive_guard_mirrors_binary_guard:
  "fst (construct RecursiveSemaphoreGuard k a) = fst (construct SemaphoreGuard k a)
   \<and> map class_neutral (snd (construct RecursiveSemaphoreGuard k a)) =
       map class_neutral (snd (construct SemaphoreGuard k a))
   \<and> kernel_calls (snd (construct RecursiveSemaphoreGuard k a)) =
       map recursive_variant (kernel_calls (snd (construct SemaphoreGuard k a)))
   \<and> kernel_calls (snd (construct SemaphoreGuard k a)) =
       map plain_variant (kernel_calls (snd (construct RecursiveSemaphoreGuard k a)))
   \<and> map class_neutral (destruct RecursiveSemaphoreGuard dbg kd g) =
       map class_neutral (destruct SemaphoreGuard dbg kd g)
   \<and> kernel_calls (destruct RecursiveSemaphoreGuard dbg kd g) =
       map recursive_variant (kernel_calls (destruct SemaphoreGuard dbg kd g))
   \<and> kernel_calls (destruct SemaphoreGuard dbg kd g) =
       map plain_variant (kernel_calls (destruct RecursiveSemaphoreGuard dbg kd g))"
proof -
  have ctor_calls:
    "kernel_calls (snd (construct RecursiveSemaphoreGuard k a)) =
       map recursive_variant (kernel_calls (snd (construct SemaphoreGuard k a)))"
    "kernel_calls (snd (construct SemaphoreGuard k a)) =
       map plain_variant (kernel_calls (snd (construct RecursiveSemaphoreGuard k a)))"
    by (simp_all add: construct_kernel_calls del: construct.simps)
  have dtor_calls:
    "kernel_calls (destruct RecursiveSemaphoreGuard dbg kd g) =
       map recursive_variant (kernel_calls (destruct SemaphoreGuard dbg kd g))"
    "kernel_calls (destruct SemaphoreGuard dbg kd g) =
       map plain_variant (kernel_calls (destruct RecursiveSemaphoreGuard dbg kd g))"
    by (simp_all add: destruct_kernel_calls del: destruct.simps)
  from ctor_calls dtor_calls construct_same_object [of k a]
    construct_class_neutral [of k a] destruct_class_neutral [of dbg kd g]
  show ?thesis
    by blast
qed

theorem recursive_guard_mirrors_binary_guard_witness:
  "snd (construct SemaphoreGuard
      \<lparr>xPortInIsrContext = False, take_status = 1, xTaskGetTickCount = 40\<rparr> (Timeout (Handle 6) 15))
     = [Call (xSemaphoreTake (Handle 6) 15)]
   \<and> snd (construct RecursiveSemaphoreGuard
      \<lparr>xPortInIsrContext = False, take_status = 1, xTaskGetTickCount = 40\<rparr> (Timeout (Handle 6) 15))
     = [Call (xSemaphoreTakeRecursive (Handle 6) 15)]
   \<and> fst (construct RecursiveSemaphoreGuard
      \<lparr>xPortInIsrContext = False, take_status = 1, xTaskGetTickCount = 40\<rparr> (Timeout (Handle 6) 15))
     = fst (construct SemaphoreGuard
      \<lparr>xPortInIsrContext = False, take_status = 1, xTaskGetTickCount = 40\<rparr> (Timeout (Handle 6) 15))"
  using recursive_guard_mirrors_binary_guard
          [of "\<lparr>xPortInIsrContext = False, take_status = 1, xTaskGetTickCount = 40\<rparr>"
              "Timeout (Handle 6) 15"]
  by (simp add: ctor_defs)

section \<open>Hold time in the debug build\<close>

text \<open>
  A guard built by a debug constructor that acquired: the destructor of the debug build logs the
  file and line the constructor was given and, as hold time, the tick count at destruction
  minus the tick count the constructor read (modulo \<open>2 ^ 32\<close>), and then releases.
\<close>

lemma debug_ctor_hold_time:
  assumes "h \<noteq> nullptr" and "\<not> xPortInIsrContext k" and "take_status k = pdTRUE"
  shows "SemaphoreGuard_dtor True kd (fst (SemaphoreGuard_ctor_debug k h f l)) =
           [SEMG_LOG_D ''Releasing semaphore at %s:%d (held for %lu ticks)''
              [ArgStr (Some f), ArgInt (Some l),
               ArgULong (Some (xTaskGetTickCount kd - xTaskGetTickCount k))],
            Call (xSemaphoreGive h)]"
    and "SemaphoreGuard_dtor True kd (fst (SemaphoreGuard_ctor_timeout_debug k h t f l)) =
           [SEMG_LOG_D ''Releasing semaphore at %s:%d (held for %lu ticks)''
              [ArgStr (Some f), ArgInt (Some l),
               ArgULong (Some (xTaskGetTickCount kd - xTaskGetTickCount k))],
            Call (xSemaphoreGive h)]"
    and "RecursiveSemaphoreGuard_dtor True kd (fst (RecursiveSemaphoreGuard_ctor_debug k h f l)) =
           [RSEMG_LOG_D ''Releasing recursive mutex at %s:%d (held for %lu ticks)''
              [ArgStr (Some f), ArgInt (Some l),
               ArgULong (Some (xTaskGetTickCount kd - xTaskGetTickCount k))],
            Call (xSemaphoreGiveRecursive h)]"
    and "RecursiveSemaphoreGuard_dtor True kd
           (fst (RecursiveSemaphoreGuard_ctor_timeout_debug k h t f l)) =
           [RSEMG_LOG_D ''Releasing recursive mutex at %s:%d (held for %lu ticks)''
              [ArgStr (Some f), ArgInt (Some l),
               ArgULong (Some (xTaskGetTickCount kd - xTaskGetTickCount k))],
            Call (xSemaphoreGiveRecursive h)]"
  using assms by (simp_all add: ctor_defs dtor_defs Let_def)

text \<open>
  Claim C8. In the debug build every guard that acquires should have its acquire timestamp
  recorded by its constructor, and the destructor should read no member the constructor did
  not set. The code does not do this for the plain constructors, which the debug build still
  declares: \<^verbatim>\<open>SemaphoreGuard guard(h)\<close> on an available semaphore acquires, stores nothing in
  \<^verbatim>\<open>m_file\<close>, \<^verbatim>\<open>m_line\<close> and \<^verbatim>\<open>m_acquireTime\<close>, and the destructor of the debug build then builds
  its log line from these three members.
\<close>

theorem plain_ctor_debug_dtor_reads_unset_members:
  "hasLock (fst (SemaphoreGuard_ctor
      \<lparr>xPortInIsrContext = False, take_status = 1, xTaskGetTickCount = 100\<rparr> (Handle 1)))
   \<and> m_acquireTime (fst (SemaphoreGuard_ctor
      \<lparr>xPortInIsrContext = False, take_status = 1, xTaskGetTickCount = 100\<rparr> (Handle 1))) = None
   \<and> SemaphoreGuard_dtor True
       \<lparr>xPortInIsrContext = False, take_status = 1, xTaskGetTickCount = 250\<rparr>
       (fst (SemaphoreGuard_ctor
          \<lparr>xPortInIsrContext = False, take_status = 1, xTaskGetTickCount = 100\<rparr> (Handle 1)))
     = [Log ESP_LOG_DEBUG ''SemaphoreGuard''
          ''Releasing semaphore at %s:%d (held for %lu ticks)''
          [ArgStr None, ArgInt None, ArgULong None],
        Call (xSemaphoreGive (Handle 1))]"
  by (simp add: ctor_defs dtor_defs log_defs SEMG_LOG_TAG_def hasLock_def pdTRUE_def)

section \<open>An acquired guard has a handle\<close>

text \<open>
  Claim C10. For a guard of either class built by any of its constructors, \<open>hasLock\<close> implies
  \<open>isValid\<close>. Hence the destructor's condition, the acquired flag together with a handle that
  is not null, is true exactly when the acquired flag is, and the destructor releases exactly
  when \<open>hasLock\<close> is true.
\<close>

theorem hasLock_implies_isValid:
  "(hasLock (fst (construct c k a)) \<longrightarrow> isValid (fst (construct c k a)))
   \<and> (m_taken (fst (construct c k a)) \<and> m_handle (fst (construct c k a)) \<noteq> nullptr)
       = hasLock (fst (construct c k a))
   \<and> (kernel_calls (destruct c dbg kd (fst (construct c k a))) \<noteq> [])
       = hasLock (fst (construct c k a))"
  by (auto simp add: destruct_kernel_calls construct_m_taken construct_m_handle
        hasLock_def isValid_def)

theorem hasLock_implies_isValid_witness:
  "hasLock (fst (construct RecursiveSemaphoreGuard
      \<lparr>xPortInIsrContext = False, take_status = 1, xTaskGetTickCount = 3\<rparr> (Plain (Handle 8))))
   \<and> isValid (fst (construct RecursiveSemaphoreGuard
      \<lparr>xPortInIsrContext = False, take_status = 1, xTaskGetTickCount = 3\<rparr> (Plain (Handle 8))))
   \<and> kernel_calls (destruct RecursiveSemaphoreGuard False
        \<lparr>xPortInIsrContext = False, take_status = 1, xTaskGetTickCount = 30\<rparr>
        (fst (construct RecursiveSemaphoreGuard
           \<lparr>xPortInIsrContext = False, take_status = 1, xTaskGetTickCount = 3\<rparr>
           (Plain (Handle 8))))) \<noteq> []"
proof -
  have acquired: "hasLock (fst (construct RecursiveSemaphoreGuard
      \<lparr>xPortInIsrContext = False, take_status = 1, xTaskGetTickCount = 3\<rparr> (Plain (Handle 8))))"
    by (simp add: ctor_defs hasLock_def pdTRUE_def)
  with hasLock_implies_isValid
         [of RecursiveSemaphoreGuard
             "\<lparr>xPortInIsrContext = False, take_status = 1, xTaskGetTickCount = 3\<rparr>"
             "Plain (Handle 8)" False
             "\<lparr>xPortInIsrContext = False, take_status = 1, xTaskGetTickCount = 30\<rparr>"]
  show ?thesis
    by simp
qed

end
